theory Spec2Isabelle
  imports Main
begin

section \<open>The customers service: HTTP handlers of service/routes.py\<close>

text \<open>
  The service is a Flask application. Every handler of \<^verbatim>\<open>service/routes.py\<close> is
  embedded as a function from the request and the database to a result and the
  database after the request. A result is a response, or the exception that left the
  handler (\<^verbatim>\<open>abort\<close>, a failed \<^verbatim>\<open>get_json\<close>, a \<^verbatim>\<open>DataValidationError\<close>).
\<close>

subsection \<open>JSON values, requests, responses, exceptions\<close>

text \<open>
  What \<^verbatim>\<open>request.get_json()\<close> returns and what \<^verbatim>\<open>jsonify\<close> receives. An object is
  the list of the items of the Python dict, a key is looked up with \<open>map_of\<close>.
  Numbers that are not integers do not occur in what the handlers build and are not
  represented.
\<close>

datatype json =
  JNull
  | JBool bool
  | JNum int
  | JStr string
  | JArr "json list"
  | JObj "(string \<times> json) list"

text \<open>
  The parts of Flask's \<^verbatim>\<open>request\<close> the handlers read: \<^verbatim>\<open>request.headers\<close> (keyed
  by the header's canonical name), \<^verbatim>\<open>request.args\<close> (the query parameters in the
  order of the query string; \<^verbatim>\<open>args.get\<close> returns the first value of a key), the
  body as decoded by \<^verbatim>\<open>get_json\<close> (\<open>None\<close> when the body is not JSON text), and
  the scheme and host (\<^verbatim>\<open>http://localhost\<close>, no slash at the end) that
  \<^verbatim>\<open>url_for(..., _external=True)\<close> puts in front of a path.
\<close>

record request =
  headers :: "(string \<times> string) list"
  args :: "(string \<times> string) list"
  json_body :: "json option"
  origin :: string

record response =
  status :: nat
  body :: json
  resp_headers :: "(string \<times> string) list"

text \<open>
  \<open>Abort code message\<close> is \<^verbatim>\<open>abort(code, message)\<close>; \<open>BadRequest\<close> is what
  \<^verbatim>\<open>request.get_json()\<close> raises on a body that does not decode;
  \<open>DataValidationError\<close> is the exception class of \<^verbatim>\<open>service.models\<close>.
\<close>

datatype error =
  Abort nat string
  | BadRequest
  | DataValidationError string

text \<open>
  Modelled from the spec: the constants of service/common/status.py, which is not among
  the sources ("standard HTTP status codes (200, 201, 204, 404, 415)").
\<close>

definition HTTP_200_OK :: nat where "HTTP_200_OK = 200"
definition HTTP_201_CREATED :: nat where "HTTP_201_CREATED = 201"
definition HTTP_204_NO_CONTENT :: nat where "HTTP_204_NO_CONTENT = 204"
definition HTTP_404_NOT_FOUND :: nat where "HTTP_404_NOT_FOUND = 404"
definition HTTP_415_UNSUPPORTED_MEDIA_TYPE :: nat where "HTTP_415_UNSUPPORTED_MEDIA_TYPE = 415"

subsection \<open>Python's \<^verbatim>\<open>str(int)\<close> and \<^verbatim>\<open>int(str)\<close>\<close>

definition digit_char :: "nat \<Rightarrow> char" where
  "digit_char d = ''0123456789'' ! d"

fun str_nat :: "nat \<Rightarrow> string" where
  "str_nat n = (if n < 10 then [digit_char n] else str_nat (n div 10) @ [digit_char (n mod 10)])"

declare str_nat.simps [simp del]

text \<open>\<^verbatim>\<open>str(i)\<close>, as the f-strings of the handlers and \<^verbatim>\<open>url_for\<close> format an id.\<close>

definition str_int :: "int \<Rightarrow> string" where
  "str_int i = (if i < 0 then CHR ''-'' # str_nat (nat (- i)) else str_nat (nat i))"

definition is_digit :: "char \<Rightarrow> bool" where
  "is_digit c \<longleftrightarrow> c \<in> set ''0123456789''"

definition digit_val :: "char \<Rightarrow> nat" where
  "digit_val c = of_char c - 48"

text \<open>
  The characters that \<^verbatim>\<open>int()\<close> strips from both ends of an ASCII string: tab, line
  feed, vertical tab, form feed, carriage return and space.
\<close>

definition is_space :: "char \<Rightarrow> bool" where
  "is_space c \<longleftrightarrow> c \<in> set [CHR 0x09, CHR 0x0A, CHR 0x0B, CHR 0x0C, CHR 0x0D, CHR 0x20]"

text \<open>
  The digits of a decimal literal, read left to right: \<open>acc\<close> is the value so far,
  \<open>prev\<close> tells whether the previous character was a digit (an underscore is
  accepted only between two digits).
\<close>

fun int_digits :: "nat \<Rightarrow> bool \<Rightarrow> string \<Rightarrow> nat option" where
  "int_digits acc prev [] = (if prev then Some acc else None)"
| "int_digits acc prev (c # cs) =
     (if is_digit c then int_digits (10 * acc + digit_val c) True cs
      else if c = CHR ''_'' \<and> prev then int_digits acc False cs
      else None)"

text \<open>
  The decimal literal that \<^verbatim>\<open>int(s)\<close> reads from an ASCII string: surrounding
  whitespace is dropped, one sign is allowed, then digits with single underscores
  between them. \<open>None\<close> is \<^verbatim>\<open>ValueError\<close>.
\<close>

definition py_int :: "string \<Rightarrow> int option" where
  "py_int s =
     (let t = rev (dropWhile is_space (rev (dropWhile is_space s))) in
      case t of
        [] \<Rightarrow> None
      | c # cs \<Rightarrow>
          if c = CHR ''-'' then map_option (\<lambda>n. - int n) (int_digits 0 False cs)
          else if c = CHR ''+'' then map_option int (int_digits 0 False cs)
          else map_option int (int_digits 0 False t))"

text \<open>
  The interpreter's default limit on the digits of a decimal string
  (\<^verbatim>\<open>sys.int_info.default_max_str_digits\<close>): \<^verbatim>\<open>int\<close> raises \<^verbatim>\<open>ValueError\<close> on a string
  with more digit characters, leading zeros counted, underscores, sign and whitespace
  not.
\<close>

definition max_str_digits :: nat where
  "max_str_digits = 4300"

text \<open>
  \<^verbatim>\<open>int(s)\<close> as \<^verbatim>\<open>delete_customer\<close> calls it, on an ASCII string: the literal, unless
  it has more digits than the limit. \<^verbatim>\<open>int\<close> also reads whitespace and digits outside
  ASCII, which a string of bytes does not represent; what is proved of the conversion
  is proved of ASCII strings (\<open>is_ascii\<close>).
\<close>

definition int_of_str :: "string \<Rightarrow> int option" where
  "int_of_str s = (if max_str_digits < length (filter is_digit s) then None else py_int s)"

definition is_ascii :: "char \<Rightarrow> bool" where
  "is_ascii c \<longleftrightarrow> (of_char c :: nat) < 128"

subsection \<open>The Customer model (service/models.py)\<close>

text \<open>
  Modelled from the spec: the class \<^verbatim>\<open>Customer\<close> of service/models.py, which is not
  among the sources ("Customer: id (unique, server-assigned), name, email,
  phone_number, address"). \<open>customer_id\<close> is the field \<^verbatim>\<open>id\<close>; it is \<open>None\<close> on an
  object that was never persisted.
\<close>

record customer =
  customer_id :: "int option"
  name :: string
  email :: string
  phone_number :: string
  address :: string

text \<open>
  Modelled from the spec: the relational store behind \<^verbatim>\<open>Customer\<close>, as the customers
  table in insertion order and the next id the store assigns.
\<close>

record db =
  rows :: "customer list"
  next_id :: int

text \<open>
  Modelled from the spec: \<^verbatim>\<open>Customer()\<close> of service/models.py, which is not among
  the sources. A new object has no id; \<open>deserialize\<close> sets every other field before
  the object is used.
\<close>

definition Customer :: customer where
  "Customer = \<lparr>customer_id = None, name = [], email = [], phone_number = [], address = []\<rparr>"

text \<open>
  Modelled from the spec: \<^verbatim>\<open>Customer.serialize\<close> of service/models.py, the entity as
  a dict of its five fields (id, name, email, phone_number, address).
\<close>

definition Customer_serialize :: "customer \<Rightarrow> json" where
  "Customer_serialize c =
     JObj [(''id'', case customer_id c of None \<Rightarrow> JNull | Some i \<Rightarrow> JNum i),
           (''name'', JStr (name c)),
           (''email'', JStr (email c)),
           (''phone_number'', JStr (phone_number c)),
           (''address'', JStr (address c))]"

definition str_field :: "(string \<times> json) list \<Rightarrow> string \<Rightarrow> string option" where
  "str_field kv k = (case map_of kv k of Some (JStr v) \<Rightarrow> Some v | _ \<Rightarrow> None)"

text \<open>
  Modelled from the spec: the \<^verbatim>\<open>DataValidationError\<close> that \<^verbatim>\<open>Customer.deserialize\<close>
  raises. The spec gives no text for its message; the model uses one fixed text.
\<close>

definition invalid_customer :: error where
  "invalid_customer = DataValidationError ''Invalid Customer''"

text \<open>
  Modelled from the spec: \<^verbatim>\<open>Customer.deserialize\<close> of service/models.py. The spec:
  "deserialize must validate required fields and raise a validation error on malformed
  input", and the id is "server-assigned" and "immutable after creation": the body
  must be an object with the text fields name, email, phone_number and address, which
  replace the object's; the id is not read from the body.
\<close>

definition Customer_deserialize :: "customer \<Rightarrow> json \<Rightarrow> error + customer" where
  "Customer_deserialize c data =
     (case data of
        JObj kv \<Rightarrow>
          (case (str_field kv ''name'', str_field kv ''email'',
                 str_field kv ''phone_number'', str_field kv ''address'') of
             (Some n, Some e, Some p, Some a) \<Rightarrow>
               Inr (c\<lparr>name := n, email := e, phone_number := p, address := a\<rparr>)
           | _ \<Rightarrow> Inl invalid_customer)
      | _ \<Rightarrow> Inl invalid_customer)"

text \<open>
  Modelled from the spec: the queries of service/models.py (\<^verbatim>\<open>find\<close>, \<^verbatim>\<open>all\<close>,
  \<^verbatim>\<open>find_by_name\<close>, \<^verbatim>\<open>find_by_email\<close>, \<^verbatim>\<open>find_by_phone_number\<close>,
  \<^verbatim>\<open>find_by_address\<close>). \<open>find\<close> returns the customer with the id or \<open>None\<close>; a
  \<open>find_by\<close> returns the customers whose field matches the value.
\<close>

definition Customer_find :: "int \<Rightarrow> db \<Rightarrow> customer option" where
  "Customer_find i s = List.find (\<lambda>c. customer_id c = Some i) (rows s)"

definition Customer_all :: "db \<Rightarrow> customer list" where
  "Customer_all s = rows s"

definition Customer_find_by_name :: "string \<Rightarrow> db \<Rightarrow> customer list" where
  "Customer_find_by_name v s = filter (\<lambda>c. name c = v) (rows s)"

definition Customer_find_by_email :: "string \<Rightarrow> db \<Rightarrow> customer list" where
  "Customer_find_by_email v s = filter (\<lambda>c. email c = v) (rows s)"

definition Customer_find_by_phone_number :: "string \<Rightarrow> db \<Rightarrow> customer list" where
  "Customer_find_by_phone_number v s = filter (\<lambda>c. phone_number c = v) (rows s)"

definition Customer_find_by_address :: "string \<Rightarrow> db \<Rightarrow> customer list" where
  "Customer_find_by_address v s = filter (\<lambda>c. address c = v) (rows s)"

text \<open>
  Modelled from the spec: \<^verbatim>\<open>create\<close>, \<^verbatim>\<open>update\<close> and \<^verbatim>\<open>delete\<close> of
  service/models.py. \<open>create\<close> gives the object the next id of the store ("unique,
  server-assigned") and inserts it; \<open>update\<close> writes the object over the row with
  its id ("full replace"); \<open>delete\<close> removes the row with its id.
\<close>

definition Customer_create :: "customer \<Rightarrow> db \<Rightarrow> customer \<times> db" where
  "Customer_create c s =
     (let c' = c\<lparr>customer_id := Some (next_id s)\<rparr>
      in (c', s\<lparr>rows := rows s @ [c'], next_id := next_id s + 1\<rparr>))"

definition Customer_update :: "customer \<Rightarrow> db \<Rightarrow> db" where
  "Customer_update c s = s\<lparr>rows := map (\<lambda>r. if customer_id r = customer_id c then c else r) (rows s)\<rparr>"

definition Customer_delete :: "customer \<Rightarrow> db \<Rightarrow> db" where
  "Customer_delete c s = s\<lparr>rows := filter (\<lambda>r. customer_id r \<noteq> customer_id c) (rows s)\<rparr>"

subsection \<open>The handlers\<close>

text \<open>
  \<^verbatim>\<open>url_for(endpoint, _external=True)\<close> for the routes declared by the decorators:
  \<^verbatim>\<open>/customers\<close> and \<^verbatim>\<open>/customers/<int:customer_id>\<close>.
\<close>

definition url_for_customers :: "request \<Rightarrow> string" where
  "url_for_customers req = origin req @ ''/customers''"

definition url_for_customer :: "request \<Rightarrow> int \<Rightarrow> string" where
  "url_for_customer req i = origin req @ ''/customers/'' @ str_int i"

definition not_found_message :: "int \<Rightarrow> string" where
  "not_found_message i = ''Customer with id '' @ [CHR 0x27] @ str_int i @ [CHR 0x27] @ '' was not found.''"

definition get_json :: "request \<Rightarrow> error + json" where
  "get_json req = (case json_body req of None \<Rightarrow> Inl BadRequest | Some data \<Rightarrow> Inr data)"

definition check_content_type :: "string \<Rightarrow> request \<Rightarrow> error + unit" where
  "check_content_type content_type req =
     (if map_of (headers req) ''Content-Type'' = None then
        Inl (Abort HTTP_415_UNSUPPORTED_MEDIA_TYPE (''Content-Type must be '' @ content_type))
      else if map_of (headers req) ''Content-Type'' = Some content_type then Inr ()
      else Inl (Abort HTTP_415_UNSUPPORTED_MEDIA_TYPE (''Content-Type must be '' @ content_type)))"

definition index :: "request \<Rightarrow> db \<Rightarrow> (error + response) \<times> db" where
  "index req s =
     (Inr \<lparr>status = HTTP_200_OK,
           body = JObj
             [(''name'', JStr ''Customer REST API Service''),
              (''version'', JStr ''1.0''),
              (''description'', JStr (''This is a RESTful service for managing customers. You can list, view, '' @
                                      ''create, update, and delete customer information.'')),
              (''paths'', JObj
                 [(''list_customers'', JObj [(''method'', JStr ''GET''), (''url'', JStr (url_for_customers req))]),
                  (''get_customer'', JObj [(''method'', JStr ''GET''), (''url'', JStr (url_for_customer req 1))]),
                  (''create_customer'', JObj [(''method'', JStr ''POST''), (''url'', JStr (url_for_customers req))]),
                  (''update_customer'', JObj [(''method'', JStr ''PUT''), (''url'', JStr (url_for_customer req 1))])])],
           resp_headers = []\<rparr>, s)"

definition create_customers :: "request \<Rightarrow> db \<Rightarrow> (error + response) \<times> db" where
  "create_customers req s =
     (case check_content_type ''application/json'' req of
        Inl e \<Rightarrow> (Inl e, s)
      | Inr _ \<Rightarrow>
          (case get_json req of
             Inl e \<Rightarrow> (Inl e, s)
           | Inr data \<Rightarrow>
               (case Customer_deserialize Customer data of
                  Inl e \<Rightarrow> (Inl e, s)
                | Inr customer \<Rightarrow>
                    (case Customer_create customer s of
                       (customer', s') \<Rightarrow>
                         (Inr \<lparr>status = HTTP_201_CREATED,
                               body = Customer_serialize customer',
                               resp_headers =
                                 [(''Location'', url_for_customer req (the (customer_id customer')))]\<rparr>,
                          s')))))"

text \<open>Python's truth value of \<^verbatim>\<open>request.args.get(key)\<close>: \<^verbatim>\<open>None\<close> and \<^verbatim>\<open>""\<close> are false.\<close>

definition truthy :: "string option \<Rightarrow> bool" where
  "truthy v = (case v of None \<Rightarrow> False | Some x \<Rightarrow> x \<noteq> [])"

definition list_customers :: "request \<Rightarrow> db \<Rightarrow> (error + response) \<times> db" where
  "list_customers req s =
     (let name = map_of (args req) ''name'';
          email = map_of (args req) ''email'';
          phone_number = map_of (args req) ''phone_number'';
          address = map_of (args req) ''address'';
          customers =
            (if truthy name then Customer_find_by_name (the name) s
             else if truthy email then Customer_find_by_email (the email) s
             else if truthy phone_number then Customer_find_by_phone_number (the phone_number) s
             else if truthy address then Customer_find_by_address (the address) s
             else Customer_all s);
          results = map Customer_serialize customers
      in (Inr \<lparr>status = HTTP_200_OK, body = JArr results, resp_headers = []\<rparr>, s))"

definition get_customers :: "int \<Rightarrow> db \<Rightarrow> (error + response) \<times> db" where
  "get_customers cid s =
     (case Customer_find cid s of
        None \<Rightarrow> (Inl (Abort HTTP_404_NOT_FOUND (not_found_message cid)), s)
      | Some customer \<Rightarrow>
          (Inr \<lparr>status = HTTP_200_OK, body = Customer_serialize customer, resp_headers = []\<rparr>, s))"

definition update_customers :: "int \<Rightarrow> request \<Rightarrow> db \<Rightarrow> (error + response) \<times> db" where
  "update_customers cid req s =
     (case check_content_type ''application/json'' req of
        Inl e \<Rightarrow> (Inl e, s)
      | Inr _ \<Rightarrow>
          (case Customer_find cid s of
             None \<Rightarrow> (Inl (Abort HTTP_404_NOT_FOUND (not_found_message cid)), s)
           | Some customer \<Rightarrow>
               (case get_json req of
                  Inl e \<Rightarrow> (Inl e, s)
                | Inr data \<Rightarrow>
                    (case Customer_deserialize customer data of
                       Inl e \<Rightarrow> (Inl e, s)
                     | Inr customer' \<Rightarrow>
                         (Inr \<lparr>status = HTTP_200_OK,
                               body = Customer_serialize customer',
                               resp_headers = []\<rparr>,
                          Customer_update customer' s)))))"

text \<open>
  The DELETE route takes the path segment as text (\<^verbatim>\<open>/customers/<customer_id>\<close>, no
  converter) and converts it with \<^verbatim>\<open>int\<close>.
\<close>

definition delete_customer :: "string \<Rightarrow> db \<Rightarrow> (error + response) \<times> db" where
  "delete_customer cid s =
     (case int_of_str cid of
        None \<Rightarrow> (Inl (DataValidationError ''Bad ID format''), s)
      | Some i \<Rightarrow>
          (case Customer_find i s of
             Some customer \<Rightarrow>
               (Inr \<lparr>status = HTTP_204_NO_CONTENT, body = JObj [], resp_headers = []\<rparr>,
                Customer_delete customer s)
           | None \<Rightarrow> (Inl (Abort HTTP_404_NOT_FOUND (not_found_message i)), s)))"

subsection \<open>Sequences of requests\<close>

text \<open>
  A request to the service, by the handler that serves it and the arguments the route
  passes to it, and the store after a sequence of requests.
\<close>

datatype call =
  Index request
  | Create_customers request
  | List_customers request
  | Get_customers int
  | Update_customers int request
  | Delete_customer string

fun run :: "call \<Rightarrow> db \<Rightarrow> (error + response) \<times> db" where
  "run (Index req) s = index req s"
| "run (Create_customers req) s = create_customers req s"
| "run (List_customers req) s = list_customers req s"
| "run (Get_customers i) s = get_customers i s"
| "run (Update_customers i req) s = update_customers i req s"
| "run (Delete_customer cid) s = delete_customer cid s"

definition run_all :: "call list \<Rightarrow> db \<Rightarrow> db" where
  "run_all calls s = foldl (\<lambda>s c. snd (run c s)) s calls"

subsection \<open>The invariant of the store\<close>

text \<open>
  Ids are "unique, server-assigned": every row has an id, the ids are positive and
  distinct, and all of them are below the next id the store hands out.
\<close>

definition wf_db :: "db \<Rightarrow> bool" where
  "wf_db s \<longleftrightarrow>
     0 < next_id s \<and>
     distinct (map customer_id (rows s)) \<and>
     list_all (\<lambda>c. case customer_id c of None \<Rightarrow> False | Some i \<Rightarrow> 0 < i \<and> i < next_id s) (rows s)"

subsection \<open>A store and requests to run the handlers on\<close>

definition example_alice :: customer where
  "example_alice = \<lparr>customer_id = Some 1, name = ''Alice'', email = ''alice@example.com'',
                     phone_number = ''555-0100'', address = ''1 Main St''\<rparr>"

definition example_bob :: customer where
  "example_bob = \<lparr>customer_id = Some 2, name = ''Bob'', email = ''bob@example.com'',
                   phone_number = ''555-0101'', address = ''2 Side St''\<rparr>"

definition example_carol :: customer where
  "example_carol = \<lparr>customer_id = Some 3, name = ''Carol'', email = ''carol@example.com'',
                     phone_number = ''555-0102'', address = ''3 Hill Rd''\<rparr>"

definition example_carol_body :: json where
  "example_carol_body = JObj [(''name'', JStr ''Carol''), (''email'', JStr ''carol@example.com''),
                              (''phone_number'', JStr ''555-0102''), (''address'', JStr ''3 Hill Rd'')]"

definition example_db :: db where
  "example_db = \<lparr>rows = [example_alice, example_bob], next_id = 3\<rparr>"

text \<open>A request with \<^verbatim>\<open>Content-Type: application/json\<close>, the given query and body.\<close>

definition example_request :: "(string \<times> string) list \<Rightarrow> json option \<Rightarrow> request" where
  "example_request qs b =
     \<lparr>headers = [(''Content-Type'', ''application/json'')], args = qs, json_body = b,
      origin = ''http://localhost''\<rparr>"

section \<open>Properties\<close>

lemmas http_defs = HTTP_200_OK_def HTTP_201_CREATED_def HTTP_204_NO_CONTENT_def
  HTTP_404_NOT_FOUND_def HTTP_415_UNSUPPORTED_MEDIA_TYPE_def

lemmas example_defs = example_alice_def example_bob_def example_db_def example_request_def

subsection \<open>Decimal text of an id\<close>

lemma digit_char_props:
  assumes "d < 10"
  shows "is_digit (digit_char d)" and "digit_val (digit_char d) = d" and "\<not> is_space (digit_char d)"
proof -
  from assms have "d \<in> {0,1,2,3,4,5,6,7,8,9}" by auto
  then show "is_digit (digit_char d)" "digit_val (digit_char d) = d" "\<not> is_space (digit_char d)"
    by (auto simp: is_digit_def digit_val_def digit_char_def is_space_def)
qed

lemma str_nat_digits: "list_all is_digit (str_nat n) \<and> str_nat n \<noteq> []"
proof (induction n rule: str_nat.induct)
  case (1 n)
  show ?case
  proof (cases "n < 10")
    case True
    then show ?thesis by (subst str_nat.simps, subst str_nat.simps) (simp add: digit_char_props)
  next
    case False
    with 1 show ?thesis by (subst str_nat.simps, subst str_nat.simps) (simp add: digit_char_props)
  qed
qed

lemma int_digits_append:
  "list_all is_digit ds \<Longrightarrow>
   int_digits acc prev (ds @ cs) =
     int_digits (foldl (\<lambda>a c. 10 * a + digit_val c) acc ds) (prev \<or> ds \<noteq> []) cs"
  by (induction ds arbitrary: acc prev) auto

lemma foldl_str_nat: "foldl (\<lambda>a c. 10 * a + digit_val c) 0 (str_nat n) = n"
proof (induction n rule: str_nat.induct)
  case (1 n)
  show ?case
  proof (cases "n < 10")
    case True
    then show ?thesis by (subst str_nat.simps) (simp add: digit_char_props)
  next
    case False
    with 1 show ?thesis by (subst str_nat.simps) (simp add: digit_char_props)
  qed
qed

lemma int_digits_str_nat: "int_digits 0 False (str_nat n) = Some n"
  using int_digits_append [of "str_nat n" 0 False "[]"] str_nat_digits [of n]
  by (simp add: foldl_str_nat)

lemma digit_not_space: "is_digit c \<Longrightarrow> \<not> is_space c"
  by (auto simp: is_digit_def is_space_def)

lemma dropWhile_no_space_hd: "xs \<noteq> [] \<Longrightarrow> \<not> is_space (hd xs) \<Longrightarrow> dropWhile is_space xs = xs"
  by (cases xs) auto

lemma strip_id:
  assumes "xs \<noteq> []" "\<not> is_space (hd xs)" "\<not> is_space (last xs)"
  shows "rev (dropWhile is_space (rev (dropWhile is_space xs))) = xs"
proof -
  have 1: "dropWhile is_space xs = xs" using assms by (simp add: dropWhile_no_space_hd)
  have "dropWhile is_space (rev xs) = rev xs"
    using assms by (intro dropWhile_no_space_hd) (simp_all add: hd_rev)
  with 1 show ?thesis by simp
qed

lemma str_nat_ends: "\<not> is_space (hd (str_nat n)) \<and> \<not> is_space (last (str_nat n))"
proof -
  have "str_nat n \<noteq> []" "list_all is_digit (str_nat n)" using str_nat_digits by auto
  then have "is_digit (hd (str_nat n))" "is_digit (last (str_nat n))"
    by (auto simp: list_all_iff)
  then show ?thesis by (simp add: digit_not_space)
qed

lemma str_nat_hd_not_sign: "hd (str_nat n) \<noteq> CHR ''-'' \<and> hd (str_nat n) \<noteq> CHR ''+''"
proof -
  have "str_nat n \<noteq> []" "list_all is_digit (str_nat n)" using str_nat_digits by auto
  then have "is_digit (hd (str_nat n))" by (auto simp: list_all_iff)
  then show ?thesis by (auto simp: is_digit_def)
qed

text \<open>\<^verbatim>\<open>int(str(i)) == i\<close> for every integer.\<close>

lemma py_int_str_int: "py_int (str_int i) = Some i"
proof (cases "i < 0")
  case True
  let ?ds = "str_nat (nat (- i))"
  have ne: "?ds \<noteq> []" using str_nat_digits by auto
  have "rev (dropWhile is_space (rev (dropWhile is_space (CHR ''-'' # ?ds)))) = CHR ''-'' # ?ds"
    using str_nat_ends [of "nat (- i)"] ne by (intro strip_id) (simp_all add: is_space_def)
  with True show ?thesis
    by (simp add: py_int_def str_int_def int_digits_str_nat)
next
  case False
  let ?ds = "str_nat (nat i)"
  have ne: "?ds \<noteq> []" using str_nat_digits by auto
  have st: "rev (dropWhile is_space (rev (dropWhile is_space ?ds))) = ?ds"
    using str_nat_ends [of "nat i"] ne by (intro strip_id) simp_all
  obtain c cs where cs: "?ds = c # cs" using ne by (cases ?ds) auto
  with str_nat_hd_not_sign [of "nat i"] have "c \<noteq> CHR ''-''" "c \<noteq> CHR ''+''" by auto
  with False st cs int_digits_str_nat [of "nat i"] show ?thesis
    by (simp add: py_int_def str_int_def)
qed

lemma str_int_digits: "0 \<le> i \<Longrightarrow> list_all is_digit (str_int i) \<and> str_int i \<noteq> []"
  using str_nat_digits [of "nat i"] by (simp add: str_int_def)

lemma digit_ascii: "is_digit c \<Longrightarrow> is_ascii c"
  by (auto simp: is_digit_def is_ascii_def)

lemma str_int_ascii: "list_all is_ascii (str_int i)"
proof -
  have "list_all is_ascii (str_nat n)" for n
    using str_nat_digits [of n] by (auto simp: list_all_iff digit_ascii)
  then show ?thesis by (simp add: str_int_def is_ascii_def)
qed

lemma int_digits_bad_char:
  "ch \<in> set cs \<Longrightarrow> \<not> is_digit ch \<Longrightarrow> ch \<noteq> CHR ''_'' \<Longrightarrow> int_digits acc prev cs = None"
  by (induction cs arbitrary: acc prev) auto

lemma set_dropWhile_keeps: "x \<in> set xs \<Longrightarrow> \<not> P x \<Longrightarrow> x \<in> set (dropWhile P xs)"
  by (induction xs) auto

text \<open>
  A string with a character that is no digit, no whitespace, no sign and no underscore
  is not an integer literal.
\<close>

lemma py_int_non_numeric:
  assumes "ch \<in> set s" "\<not> is_digit ch" "\<not> is_space ch"
    and "ch \<noteq> CHR ''_''" "ch \<noteq> CHR ''+''" "ch \<noteq> CHR ''-''"
  shows "py_int s = None"
proof -
  let ?t = "rev (dropWhile is_space (rev (dropWhile is_space s)))"
  have "ch \<in> set (dropWhile is_space s)" using assms by (simp add: set_dropWhile_keeps)
  then have "ch \<in> set (rev (dropWhile is_space s))" by simp
  then have "ch \<in> set (dropWhile is_space (rev (dropWhile is_space s)))"
    using assms by (simp add: set_dropWhile_keeps)
  then have mem: "ch \<in> set ?t" by simp
  show ?thesis
  proof (cases ?t)
    case Nil
    with mem show ?thesis by simp
  next
    case (Cons c cs)
    have all: "int_digits 0 False ?t = None"
      using mem assms by (intro int_digits_bad_char [of ch]) auto
    show ?thesis
    proof (cases "c = CHR ''-'' \<or> c = CHR ''+''")
      case True
      with mem Cons assms have "ch \<in> set cs" by auto
      then have "int_digits 0 False cs = None"
        using assms by (intro int_digits_bad_char [of ch]) auto
      with True Cons show ?thesis by (auto simp: py_int_def Let_def)
    next
      case False
      with all Cons show ?thesis by (simp add: py_int_def Let_def)
    qed
  qed
qed

subsection \<open>The Customer operations\<close>

lemma find_Some_props: "List.find P xs = Some x \<Longrightarrow> P x \<and> x \<in> set xs"
  by (induction xs) (auto split: if_splits)

lemma Customer_find_Some:
  "Customer_find i s = Some c \<Longrightarrow> customer_id c = Some i \<and> c \<in> set (rows s)"
  unfolding Customer_find_def by (drule find_Some_props) simp

lemma Customer_find_None_iff:
  "Customer_find i s = None \<longleftrightarrow> Some i \<notin> customer_id ` set (rows s)"
  by (force simp: Customer_find_def find_None_iff)

lemma str_field_Some: "map_of kv k = Some (JStr v) \<Longrightarrow> str_field kv k = Some v"
  by (simp add: str_field_def)

lemma deserialize_ok:
  assumes "map_of kv ''name'' = Some (JStr n)" "map_of kv ''email'' = Some (JStr e)"
    "map_of kv ''phone_number'' = Some (JStr p)" "map_of kv ''address'' = Some (JStr a)"
  shows "Customer_deserialize c (JObj kv) = Inr (c\<lparr>name := n, email := e, phone_number := p, address := a\<rparr>)"
  using assms by (simp add: Customer_deserialize_def str_field_Some)

lemma deserialize_keeps_id:
  "Customer_deserialize c data = Inr c' \<Longrightarrow> customer_id c' = customer_id c"
  by (auto simp: Customer_deserialize_def split: json.splits option.splits)

text \<open>Whether a body fails validation does not depend on the object it is read into.\<close>

lemma deserialize_error_indep:
  "Customer_deserialize c data = Inl e \<Longrightarrow> Customer_deserialize c' data = Inl e"
  by (auto simp: Customer_deserialize_def split: json.splits option.splits)

lemma deserialize_error: "Customer_deserialize c data = Inl e \<Longrightarrow> e = invalid_customer"
  by (auto simp: Customer_deserialize_def split: json.splits option.splits)

lemma find_append_new:
  "List.find P xs = None \<Longrightarrow> P x \<Longrightarrow> List.find P (xs @ [x]) = Some x"
  by (induction xs) (auto split: if_splits)

lemma find_after_update:
  assumes "List.find (\<lambda>r. customer_id r = Some i) xs = Some c" "customer_id c' = Some i"
  shows "List.find (\<lambda>r. customer_id r = Some i)
           (map (\<lambda>r. if customer_id r = Some i then c' else r) xs) = Some c'"
  using assms by (induction xs) (auto split: if_splits)

lemma find_after_delete:
  "List.find (\<lambda>r. customer_id r = Some i) (filter (\<lambda>r. customer_id r \<noteq> Some i) xs) = None"
  by (simp add: find_None_iff)

lemma ids_Customer_update:
  "map customer_id (rows (Customer_update c s)) = map customer_id (rows s)"
  by (auto simp: Customer_update_def)


subsection \<open>The invariant holds in every store the handlers produce\<close>

lemma wf_db_alt:
  "wf_db s \<longleftrightarrow> 0 < next_id s \<and> distinct (map customer_id (rows s)) \<and>
     (\<forall>c\<in>set (rows s). \<exists>i. customer_id c = Some i \<and> 0 < i \<and> i < next_id s)"
  by (auto simp: wf_db_def list_all_iff split: option.splits)

lemma wf_db_fresh: "wf_db s \<Longrightarrow> Customer_find (next_id s) s = None"
  by (auto simp: wf_db_alt Customer_find_None_iff)

lemma wf_db_empty: "wf_db \<lparr>rows = [], next_id = 1\<rparr>"
  by (simp add: wf_db_def)

lemma wf_example_db: "wf_db example_db"
  by (simp add: wf_db_def example_defs)

lemma wf_db_create:
  assumes "wf_db s"
  shows "wf_db (snd (Customer_create c s))"
proof -
  have "Some (next_id s) \<notin> customer_id ` set (rows s)"
    using wf_db_fresh [OF assms] by (simp add: Customer_find_None_iff)
  with assms show ?thesis
    by (auto simp: wf_db_def Customer_create_def Let_def list_all_iff split: option.splits)
qed

lemma wf_db_update:
  assumes "wf_db s" "Customer_find i s = Some c" "customer_id c' = Some i"
  shows "wf_db (Customer_update c' s)"
proof -
  have "c \<in> set (rows s)" "customer_id c = Some i" using Customer_find_Some [OF assms(2)] by auto
  with assms(1) have i: "0 < i \<and> i < next_id s" by (auto simp: wf_db_alt)
  have "distinct (map customer_id (rows (Customer_update c' s)))"
    using assms(1) by (simp only: ids_Customer_update wf_db_alt)
  moreover have "\<forall>r\<in>set (rows (Customer_update c' s)).
      \<exists>j. customer_id r = Some j \<and> 0 < j \<and> j < next_id s"
    using assms(1,3) i by (auto simp: Customer_update_def wf_db_alt)
  moreover have "next_id (Customer_update c' s) = next_id s" by (simp add: Customer_update_def)
  ultimately show ?thesis using assms(1) by (simp add: wf_db_alt)
qed

lemma wf_db_delete: "wf_db s \<Longrightarrow> wf_db (Customer_delete c s)"
  by (auto simp: wf_db_alt Customer_delete_def distinct_map_filter)

lemma check_content_type_cases:
  "check_content_type ct req =
     (if map_of (headers req) ''Content-Type'' = Some ct then Inr ()
      else Inl (Abort 415 (''Content-Type must be '' @ ct)))"
  by (auto simp: check_content_type_def http_defs)

lemma update_customers_snd:
  "snd (update_customers i req s) = s \<or>
   (\<exists>c data c'. Customer_find i s = Some c \<and> Customer_deserialize c data = Inr c'
      \<and> snd (update_customers i req s) = Customer_update c' s)"
proof (cases "check_content_type ''application/json'' req")
  case (Inl e)
  then show ?thesis by (simp add: update_customers_def)
next
  case ct: (Inr u)
  show ?thesis
  proof (cases "Customer_find i s")
    case None
    with ct show ?thesis by (simp add: update_customers_def)
  next
    case found: (Some c)
    show ?thesis
    proof (cases "get_json req")
      case (Inl e)
      with ct found show ?thesis by (simp add: update_customers_def)
    next
      case js: (Inr data)
      show ?thesis
      proof (cases "Customer_deserialize c data")
        case (Inl e)
        with ct found js show ?thesis by (simp add: update_customers_def)
      next
        case (Inr c')
        with ct found js have "snd (update_customers i req s) = Customer_update c' s"
          by (simp add: update_customers_def)
        with found Inr show ?thesis by blast
      qed
    qed
  qed
qed

lemma wf_db_create_customers: "wf_db s \<Longrightarrow> wf_db (snd (create_customers req s))"
  using wf_db_create
  by (auto simp: create_customers_def split: sum.splits prod.splits) (metis snd_conv)

lemma wf_db_update_customers:
  assumes "wf_db s"
  shows "wf_db (snd (update_customers i req s))"
  using update_customers_snd [of i req s]
proof
  assume "snd (update_customers i req s) = s"
  with assms show ?thesis by simp
next
  assume "\<exists>c data c'. Customer_find i s = Some c \<and> Customer_deserialize c data = Inr c'
      \<and> snd (update_customers i req s) = Customer_update c' s"
  then obtain c data c' where *: "Customer_find i s = Some c" "Customer_deserialize c data = Inr c'"
    "snd (update_customers i req s) = Customer_update c' s" by blast
  have "customer_id c' = Some i"
    using deserialize_keeps_id [OF *(2)] Customer_find_Some [OF *(1)] by simp
  with assms * show ?thesis by (simp add: wf_db_update)
qed

lemma wf_db_delete_customer: "wf_db s \<Longrightarrow> wf_db (snd (delete_customer cid s))"
  by (auto simp: delete_customer_def split: option.splits intro: wf_db_delete)

lemma wf_db_run: "wf_db s \<Longrightarrow> wf_db (snd (run c s))"
  by (cases c)
    (simp_all add: wf_db_create_customers wf_db_update_customers wf_db_delete_customer
      index_def list_customers_def get_customers_def Let_def split: option.splits)

text \<open>Every store reached from the empty store by requests to the service satisfies the invariant.\<close>

lemma wf_db_run_all: "wf_db s \<Longrightarrow> wf_db (run_all calls s)"
  unfolding run_all_def by (induction calls arbitrary: s) (simp_all add: wf_db_run)

lemma wf_db_reachable: "wf_db (run_all calls \<lparr>rows = [], next_id = 1\<rparr>)"
  by (rule wf_db_run_all) (rule wf_db_empty)

subsection \<open>POST /customers\<close>

text \<open>
  C1. A POST with \<^verbatim>\<open>Content-Type: application/json\<close> and a well-formed customer body
  (an object with the text fields name, email, phone_number and address), on a store
  that satisfies the invariant (as every store reached from the empty store does),
  answers 201 with the serialized new customer and a
  Location header \<^verbatim>\<open>.../customers/<id>\<close> for the newly assigned id: the id was not in
  use, its text is a run of digits that reads back as the id (so the URL is one of the
  route \<^verbatim>\<open>/customers/<int:customer_id>\<close> of \<^verbatim>\<open>get_customers\<close>), and
  \<^verbatim>\<open>get_customers\<close> with that id on the store after the POST answers 200 with the
  same serialized customer.
\<close>

theorem create_customers_201_then_get:
  assumes "wf_db s"
    and "map_of (headers req) ''Content-Type'' = Some ''application/json''"
    and "json_body req = Some (JObj kv)"
    and "map_of kv ''name'' = Some (JStr n)" and "map_of kv ''email'' = Some (JStr e)"
    and "map_of kv ''phone_number'' = Some (JStr p)" and "map_of kv ''address'' = Some (JStr a)"
    and "c = \<lparr>customer_id = Some (next_id s), name = n, email = e, phone_number = p, address = a\<rparr>"
    and "s' = s\<lparr>rows := rows s @ [c], next_id := next_id s + 1\<rparr>"
  shows "create_customers req s =
           (Inr \<lparr>status = 201, body = Customer_serialize c,
                 resp_headers = [(''Location'', origin req @ ''/customers/'' @ str_int (next_id s))]\<rparr>, s')
         \<and> Customer_find (next_id s) s = None
         \<and> list_all is_digit (str_int (next_id s)) \<and> py_int (str_int (next_id s)) = Some (next_id s)
         \<and> get_customers (next_id s) s' =
             (Inr \<lparr>status = 200, body = Customer_serialize c, resp_headers = []\<rparr>, s')"
proof -
  have fresh: "Customer_find (next_id s) s = None" using assms(1) by (rule wf_db_fresh)
  have des: "Customer_deserialize Customer (JObj kv) = Inr (c\<lparr>customer_id := None\<rparr>)"
    using assms(4-8) by (simp add: deserialize_ok Customer_def)
  have cr: "create_customers req s =
           (Inr \<lparr>status = 201, body = Customer_serialize c,
                 resp_headers = [(''Location'', origin req @ ''/customers/'' @ str_int (next_id s))]\<rparr>, s')"
    using assms(2,3,8,9) des
    by (simp add: create_customers_def check_content_type_cases get_json_def
        Customer_create_def Let_def http_defs url_for_customer_def)
  have "Customer_find (next_id s) s' = Some c"
    using fresh assms(8,9) by (simp add: Customer_find_def find_append_new)
  then have get: "get_customers (next_id s) s' =
      (Inr \<lparr>status = 200, body = Customer_serialize c, resp_headers = []\<rparr>, s')"
    by (simp add: get_customers_def http_defs)
  have "0 \<le> next_id s" using assms(1) by (simp add: wf_db_def)
  then have "list_all is_digit (str_int (next_id s))" by (simp add: str_int_digits)
  with cr fresh get show ?thesis by (simp add: py_int_str_int)
qed

text \<open>Carol is posted to the store of Alice and Bob, and read back under id 3.\<close>

theorem create_customers_201_then_get_witness:
  "wf_db example_db
   \<and> create_customers (example_request [] (Some example_carol_body)) example_db =
       (Inr \<lparr>status = 201, body = Customer_serialize example_carol,
             resp_headers = [(''Location'', ''http://localhost/customers/3'')]\<rparr>,
        \<lparr>rows = [example_alice, example_bob, example_carol], next_id = 4\<rparr>)
   \<and> get_customers 3 \<lparr>rows = [example_alice, example_bob, example_carol], next_id = 4\<rparr> =
       (Inr \<lparr>status = 200, body = Customer_serialize example_carol, resp_headers = []\<rparr>,
        \<lparr>rows = [example_alice, example_bob, example_carol], next_id = 4\<rparr>)"
proof -
  let ?req = "example_request [] (Some example_carol_body)"
  let ?s' = "\<lparr>rows = [example_alice, example_bob, example_carol], next_id = 4\<rparr>"
  have s3: "str_int 3 = ''3''" by code_simp
  have "create_customers ?req example_db =
           (Inr \<lparr>status = 201, body = Customer_serialize example_carol,
                 resp_headers = [(''Location'', origin ?req @ ''/customers/'' @ str_int (next_id example_db))]\<rparr>,
            ?s')
         \<and> Customer_find (next_id example_db) example_db = None
         \<and> list_all is_digit (str_int (next_id example_db))
         \<and> py_int (str_int (next_id example_db)) = Some (next_id example_db)
         \<and> get_customers (next_id example_db) ?s' =
             (Inr \<lparr>status = 200, body = Customer_serialize example_carol, resp_headers = []\<rparr>, ?s')"
    by (rule create_customers_201_then_get [OF wf_example_db,
          where kv = "[(''name'', JStr ''Carol''), (''email'', JStr ''carol@example.com''),
                       (''phone_number'', JStr ''555-0102''), (''address'', JStr ''3 Hill Rd'')]"
          and n = "''Carol''" and e = "''carol@example.com''" and p = "''555-0102''" and a = "''3 Hill Rd''"])
       (simp_all add: example_defs example_carol_body_def example_carol_def)
  then show ?thesis
    using s3 wf_example_db by (simp add: example_request_def example_db_def)
qed

subsection \<open>GET /customers\<close>

text \<open>
  C2, as amended. GET /customers answers 200 with the serialized list and applies one
  filter, the first in the order name, email, phone_number, address whose parameter is
  given with a non-empty value: name selects through \<^verbatim>\<open>find_by_name\<close>; otherwise
  email through \<^verbatim>\<open>find_by_email\<close>; otherwise phone_number; otherwise address;
  otherwise all customers are returned. A parameter given with an empty value does not
  select. The customers \<^verbatim>\<open>find_by_name\<close> returns are those of the store with that
  name, so \<^verbatim>\<open>name=Alice\<close> returns only customers named Alice.
\<close>

theorem list_customers_priority:
  "(map_of (args req) ''name'' = Some n \<and> n \<noteq> [] \<longrightarrow>
      list_customers req s =
        (Inr \<lparr>status = 200, body = JArr (map Customer_serialize (Customer_find_by_name n s)),
              resp_headers = []\<rparr>, s))
   \<and> (\<not> truthy (map_of (args req) ''name'') \<and> map_of (args req) ''email'' = Some e \<and> e \<noteq> [] \<longrightarrow>
      list_customers req s =
        (Inr \<lparr>status = 200, body = JArr (map Customer_serialize (Customer_find_by_email e s)),
              resp_headers = []\<rparr>, s))
   \<and> (\<not> truthy (map_of (args req) ''name'') \<and> \<not> truthy (map_of (args req) ''email'')
        \<and> map_of (args req) ''phone_number'' = Some p \<and> p \<noteq> [] \<longrightarrow>
      list_customers req s =
        (Inr \<lparr>status = 200, body = JArr (map Customer_serialize (Customer_find_by_phone_number p s)),
              resp_headers = []\<rparr>, s))
   \<and> (\<not> truthy (map_of (args req) ''name'') \<and> \<not> truthy (map_of (args req) ''email'')
        \<and> \<not> truthy (map_of (args req) ''phone_number'')
        \<and> map_of (args req) ''address'' = Some a \<and> a \<noteq> [] \<longrightarrow>
      list_customers req s =
        (Inr \<lparr>status = 200, body = JArr (map Customer_serialize (Customer_find_by_address a s)),
              resp_headers = []\<rparr>, s))
   \<and> (\<not> truthy (map_of (args req) ''name'') \<and> \<not> truthy (map_of (args req) ''email'')
        \<and> \<not> truthy (map_of (args req) ''phone_number'') \<and> \<not> truthy (map_of (args req) ''address'') \<longrightarrow>
      list_customers req s =
        (Inr \<lparr>status = 200, body = JArr (map Customer_serialize (Customer_all s)), resp_headers = []\<rparr>, s))
   \<and> truthy v = (v \<noteq> None \<and> v \<noteq> Some [])
   \<and> set (Customer_find_by_name n s) = {c \<in> set (rows s). name c = n}"
  by (auto simp: list_customers_def Let_def truthy_def http_defs Customer_find_by_name_def
      split: option.splits)

text \<open>
  Each of the five branches on the store of Alice and Bob: name wins over email, email
  over address, phone_number over address, address alone, no filter.
\<close>

theorem list_customers_priority_witness:
  "list_customers (example_request [(''email'', ''bob@example.com''), (''name'', ''Alice'')] None) example_db
     = (Inr \<lparr>status = 200, body = JArr [Customer_serialize example_alice], resp_headers = []\<rparr>, example_db)
   \<and> list_customers (example_request [(''address'', ''1 Main St''), (''email'', ''bob@example.com'')] None) example_db
     = (Inr \<lparr>status = 200, body = JArr [Customer_serialize example_bob], resp_headers = []\<rparr>, example_db)
   \<and> list_customers (example_request [(''address'', ''1 Main St''), (''phone_number'', ''555-0101'')] None) example_db
     = (Inr \<lparr>status = 200, body = JArr [Customer_serialize example_bob], resp_headers = []\<rparr>, example_db)
   \<and> list_customers (example_request [(''address'', ''1 Main St'')] None) example_db
     = (Inr \<lparr>status = 200, body = JArr [Customer_serialize example_alice], resp_headers = []\<rparr>, example_db)
   \<and> list_customers (example_request [] None) example_db
     = (Inr \<lparr>status = 200, body = JArr [Customer_serialize example_alice, Customer_serialize example_bob],
           resp_headers = []\<rparr>, example_db)"
proof -
  have 1: "list_customers (example_request [(''email'', ''bob@example.com''), (''name'', ''Alice'')] None) example_db
     = (Inr \<lparr>status = 200, body = JArr [Customer_serialize example_alice], resp_headers = []\<rparr>, example_db)"
    using list_customers_priority [of "example_request [(''email'', ''bob@example.com''), (''name'', ''Alice'')] None"
        "''Alice''" example_db]
    by (simp add: example_defs Customer_find_by_name_def)
  have 2: "list_customers (example_request [(''address'', ''1 Main St''), (''email'', ''bob@example.com'')] None) example_db
     = (Inr \<lparr>status = 200, body = JArr [Customer_serialize example_bob], resp_headers = []\<rparr>, example_db)"
    using list_customers_priority [of "example_request [(''address'', ''1 Main St''), (''email'', ''bob@example.com'')] None"
        _ example_db "''bob@example.com''"]
    by (simp add: example_defs Customer_find_by_email_def truthy_def)
  have 3: "list_customers (example_request [(''address'', ''1 Main St''), (''phone_number'', ''555-0101'')] None) example_db
     = (Inr \<lparr>status = 200, body = JArr [Customer_serialize example_bob], resp_headers = []\<rparr>, example_db)"
    using list_customers_priority [of "example_request [(''address'', ''1 Main St''), (''phone_number'', ''555-0101'')] None"
        _ example_db _ "''555-0101''"]
    by (simp add: example_defs Customer_find_by_phone_number_def truthy_def)
  have 4: "list_customers (example_request [(''address'', ''1 Main St'')] None) example_db
     = (Inr \<lparr>status = 200, body = JArr [Customer_serialize example_alice], resp_headers = []\<rparr>, example_db)"
    using list_customers_priority [of "example_request [(''address'', ''1 Main St'')] None"
        _ example_db _ _ "''1 Main St''"]
    by (simp add: example_defs Customer_find_by_address_def truthy_def)
  have 5: "list_customers (example_request [] None) example_db
     = (Inr \<lparr>status = 200, body = JArr [Customer_serialize example_alice, Customer_serialize example_bob],
           resp_headers = []\<rparr>, example_db)"
    using list_customers_priority [of "example_request [] None" _ example_db]
    by (simp add: example_defs Customer_all_def truthy_def)
  from 1 2 3 4 5 show ?thesis by simp
qed

text \<open>
  C2 as stated fails where name is given with an empty value: for
  \<^verbatim>\<open>GET /customers?name=&email=bob@example.com\<close> the claim has name alone select the
  result through \<^verbatim>\<open>find_by_name("")\<close>, which finds nobody in the store of Alice and
  Bob; the handler filters by email and returns Bob.
\<close>

theorem list_customers_empty_name_counterexample:
  "map_of (args (example_request [(''name'', ''''), (''email'', ''bob@example.com'')] None)) ''name'' = Some ''''
   \<and> fst (list_customers (example_request [(''name'', ''''), (''email'', ''bob@example.com'')] None) example_db)
       = Inr \<lparr>status = 200, body = JArr [Customer_serialize example_bob], resp_headers = []\<rparr>
   \<and> map Customer_serialize (Customer_find_by_name '''' example_db) = []
   \<and> fst (list_customers (example_request [(''name'', ''''), (''email'', ''bob@example.com'')] None) example_db)
       \<noteq> Inr \<lparr>status = 200, body = JArr (map Customer_serialize (Customer_find_by_name '''' example_db)),
               resp_headers = []\<rparr>"
  by (simp add: list_customers_def Let_def truthy_def http_defs example_defs
      Customer_find_by_name_def Customer_find_by_email_def)



subsection \<open>GET /customers/{id}\<close>

text \<open>
  C5. \<^verbatim>\<open>get_customers\<close> answers 200 with the serialized entity when \<^verbatim>\<open>Customer.find\<close>
  returns a customer for the id, and aborts with 404 and a message that names the id
  when it returns none; a customer is found exactly when a row of the store has the id.
\<close>

theorem get_customers_200_or_404:
  "(Customer_find i s = Some c \<longrightarrow>
      get_customers i s = (Inr \<lparr>status = 200, body = Customer_serialize c, resp_headers = []\<rparr>, s))
   \<and> (Customer_find i s = None \<longrightarrow>
      get_customers i s =
        (Inl (Abort 404 (''Customer with id '' @ [CHR 0x27] @ str_int i @ [CHR 0x27] @ '' was not found.'')), s))
   \<and> (Customer_find i s = None) = (Some i \<notin> customer_id ` set (rows s))"
proof (intro conjI)
  show "Customer_find i s = Some c \<longrightarrow>
      get_customers i s = (Inr \<lparr>status = 200, body = Customer_serialize c, resp_headers = []\<rparr>, s)"
    by (simp add: get_customers_def http_defs)
  show "Customer_find i s = None \<longrightarrow>
      get_customers i s =
        (Inl (Abort 404 (''Customer with id '' @ [CHR 0x27] @ str_int i @ [CHR 0x27] @ '' was not found.'')), s)"
    by (simp add: get_customers_def http_defs not_found_message_def)
  show "(Customer_find i s = None) = (Some i \<notin> customer_id ` set (rows s))"
    by (rule Customer_find_None_iff)
qed

theorem get_customers_200_or_404_witness:
  "Customer_find 2 example_db = Some example_bob
   \<and> get_customers 2 example_db
       = (Inr \<lparr>status = 200, body = Customer_serialize example_bob, resp_headers = []\<rparr>, example_db)
   \<and> Customer_find 7 example_db = None
   \<and> get_customers 7 example_db
       = (Inl (Abort 404 ''Customer with id '7' was not found.''), example_db)"
proof -
  have f2: "Customer_find 2 example_db = Some example_bob"
    by (simp add: Customer_find_def example_defs)
  have f7: "Customer_find 7 example_db = None"
    by (simp add: Customer_find_def example_defs)
  have s7: "str_int 7 = ''7''" by code_simp
  from get_customers_200_or_404 [of 2 example_db example_bob]
       get_customers_200_or_404 [of 7 example_db example_bob]
       f2 f7 s7
  show ?thesis by simp
qed

subsection \<open>PUT /customers/{id}\<close>

text \<open>
  C3, as amended. For a PUT with \<^verbatim>\<open>Content-Type: application/json\<close>: if no customer
  has the id the response is 404; if one has and the body is a well-formed customer
  (an object with the text fields name, email, phone_number and address), its name,
  email, phone_number and address are replaced by the values of the body, the response
  is 200 with the updated serialized entity, and the store holds the updated entity
  under the id.
\<close>

theorem update_customers_404_or_replace:
  assumes "map_of (headers req) ''Content-Type'' = Some ''application/json''"
  shows "(Customer_find i s = None \<longrightarrow>
            update_customers i req s =
              (Inl (Abort 404 (''Customer with id '' @ [CHR 0x27] @ str_int i @ [CHR 0x27] @ '' was not found.'')), s))
       \<and> (Customer_find i s = Some c \<and> json_body req = Some (JObj kv)
            \<and> map_of kv ''name'' = Some (JStr n) \<and> map_of kv ''email'' = Some (JStr e)
            \<and> map_of kv ''phone_number'' = Some (JStr p) \<and> map_of kv ''address'' = Some (JStr a)
            \<and> c' = \<lparr>customer_id = Some i, name = n, email = e, phone_number = p, address = a\<rparr> \<longrightarrow>
            update_customers i req s =
              (Inr \<lparr>status = 200, body = Customer_serialize c', resp_headers = []\<rparr>,
               s\<lparr>rows := map (\<lambda>r. if customer_id r = Some i then c' else r) (rows s)\<rparr>)
            \<and> Customer_find i (snd (update_customers i req s)) = Some c')"
proof (intro conjI impI)
  assume "Customer_find i s = None"
  with assms show "update_customers i req s =
      (Inl (Abort 404 (''Customer with id '' @ [CHR 0x27] @ str_int i @ [CHR 0x27] @ '' was not found.'')), s)"
    by (simp add: update_customers_def check_content_type_cases http_defs not_found_message_def)
next
  assume h: "Customer_find i s = Some c \<and> json_body req = Some (JObj kv)
            \<and> map_of kv ''name'' = Some (JStr n) \<and> map_of kv ''email'' = Some (JStr e)
            \<and> map_of kv ''phone_number'' = Some (JStr p) \<and> map_of kv ''address'' = Some (JStr a)
            \<and> c' = \<lparr>customer_id = Some i, name = n, email = e, phone_number = p, address = a\<rparr>"
  then have id: "customer_id c = Some i" using Customer_find_Some by blast
  have des: "Customer_deserialize c (JObj kv) = Inr c'"
    using h id by (simp add: deserialize_ok)
  show upd: "update_customers i req s =
              (Inr \<lparr>status = 200, body = Customer_serialize c', resp_headers = []\<rparr>,
               s\<lparr>rows := map (\<lambda>r. if customer_id r = Some i then c' else r) (rows s)\<rparr>)"
    using assms h des
    by (simp add: update_customers_def check_content_type_cases get_json_def http_defs Customer_update_def)
  have "List.find (\<lambda>r. customer_id r = Some i) (rows s) = Some c"
    using h by (simp add: Customer_find_def)
  then show "Customer_find i (snd (update_customers i req s)) = Some c'"
    using h by (simp add: upd Customer_find_def find_after_update)
qed

text \<open>Id 7 is not in the store of Alice and Bob; Bob (id 2) becomes Carol's data.\<close>

theorem update_customers_404_or_replace_witness:
  "Customer_find 7 example_db = None
   \<and> update_customers 7 (example_request [] (Some example_carol_body)) example_db =
       (Inl (Abort 404 ''Customer with id '7' was not found.''), example_db)
   \<and> Customer_find 2 example_db = Some example_bob
   \<and> update_customers 2 (example_request [] (Some example_carol_body)) example_db =
       (Inr \<lparr>status = 200, body = Customer_serialize (example_carol\<lparr>customer_id := Some 2\<rparr>), resp_headers = []\<rparr>,
        \<lparr>rows = [example_alice, example_carol\<lparr>customer_id := Some 2\<rparr>], next_id = 3\<rparr>)"
proof -
  let ?req = "example_request [] (Some example_carol_body)"
  have ct: "map_of (headers ?req) ''Content-Type'' = Some ''application/json''"
    by (simp add: example_request_def)
  have f2: "Customer_find 2 example_db = Some example_bob"
    by (simp add: Customer_find_def example_defs)
  have f7: "Customer_find 7 example_db = None"
    by (simp add: Customer_find_def example_defs)
  have s7: "str_int 7 = ''7''" by code_simp
  from update_customers_404_or_replace [OF ct, of 7 example_db]
  have a: "update_customers 7 ?req example_db =
      (Inl (Abort 404 ''Customer with id '7' was not found.''), example_db)"
    using f7 s7 by simp
  from update_customers_404_or_replace [OF ct, of 2 example_db example_bob
      "[(''name'', JStr ''Carol''), (''email'', JStr ''carol@example.com''),
        (''phone_number'', JStr ''555-0102''), (''address'', JStr ''3 Hill Rd'')]"
      "''Carol''" "''carol@example.com''" "''555-0102''" "''3 Hill Rd''"
      "example_carol\<lparr>customer_id := Some 2\<rparr>"]
  have b: "update_customers 2 ?req example_db =
       (Inr \<lparr>status = 200, body = Customer_serialize (example_carol\<lparr>customer_id := Some 2\<rparr>), resp_headers = []\<rparr>,
        \<lparr>rows = [example_alice, example_carol\<lparr>customer_id := Some 2\<rparr>], next_id = 3\<rparr>)"
    using f2 by (simp add: example_defs example_carol_body_def example_carol_def)
  from a b f2 f7 show ?thesis by simp
qed

text \<open>
  C3 as stated fails on a body that does not validate: a PUT to the existing id 2 with
  \<^verbatim>\<open>Content-Type: application/json\<close> and the body \<^verbatim>\<open>{"name": "Robert"}\<close> raises the
  validation error; the response is not 200 and no field is replaced. The same holds
  for a body that is not JSON text, which \<^verbatim>\<open>request.get_json()\<close> refuses.
\<close>

theorem update_customers_malformed_body_counterexample:
  "map_of (headers (example_request [] (Some (JObj [(''name'', JStr ''Robert'')])))) ''Content-Type''
       = Some ''application/json''
   \<and> Customer_find 2 example_db = Some example_bob
   \<and> update_customers 2 (example_request [] (Some (JObj [(''name'', JStr ''Robert'')]))) example_db
       = (Inl (DataValidationError ''Invalid Customer''), example_db)
   \<and> update_customers 2 (example_request [] None) example_db = (Inl BadRequest, example_db)"
  by (simp add: update_customers_def check_content_type_cases get_json_def Customer_deserialize_def
      invalid_customer_def str_field_def Customer_find_def example_defs)

subsection \<open>DELETE /customers/{id}\<close>

text \<open>
  C4. For an id of ASCII characters, \<^verbatim>\<open>delete_customer\<close> converts the id with
  \<^verbatim>\<open>int\<close>; when that fails it raises \<^verbatim>\<open>DataValidationError("Bad ID format")\<close>, and it
  fails on every id with a character that is no digit, whitespace, sign or underscore
  and on every id with more digits than the interpreter converts, while the decimal
  text of an integer within that limit converts to the integer. When a customer with
  the parsed id is found the rows with that id are removed and the response is 204;
  the id is then absent, and the same DELETE again answers 404 and leaves the store as
  the first DELETE left it. When no customer is found the response is 404 and the
  store is unchanged.
\<close>

theorem delete_customer_204_or_404:
  assumes "list_all is_ascii cid"
  shows "(int_of_str cid = None \<longrightarrow>
      delete_customer cid s = (Inl (DataValidationError ''Bad ID format''), s))
   \<and> ((\<exists>ch\<in>set cid. \<not> is_digit ch \<and> \<not> is_space ch \<and> ch \<notin> {CHR ''_'', CHR ''+'', CHR ''-''}) \<longrightarrow>
      int_of_str cid = None)
   \<and> (max_str_digits < length (filter is_digit cid) \<longrightarrow> int_of_str cid = None)
   \<and> (length (filter is_digit (str_int j)) \<le> max_str_digits \<longrightarrow>
      list_all is_ascii (str_int j) \<and> int_of_str (str_int j) = Some j)
   \<and> (int_of_str cid = Some i \<and> Customer_find i s = Some c \<longrightarrow>
      delete_customer cid s =
        (Inr \<lparr>status = 204, body = JObj [], resp_headers = []\<rparr>,
         s\<lparr>rows := filter (\<lambda>r. customer_id r \<noteq> Some i) (rows s)\<rparr>)
      \<and> Customer_find i (snd (delete_customer cid s)) = None
      \<and> delete_customer cid (snd (delete_customer cid s)) =
          (Inl (Abort 404 (''Customer with id '' @ [CHR 0x27] @ str_int i @ [CHR 0x27] @ '' was not found.'')),
           snd (delete_customer cid s)))
   \<and> (int_of_str cid = Some i \<and> Customer_find i s = None \<longrightarrow>
      delete_customer cid s =
        (Inl (Abort 404 (''Customer with id '' @ [CHR 0x27] @ str_int i @ [CHR 0x27] @ '' was not found.'')), s))"
proof (intro conjI impI)
  assume "int_of_str cid = None"
  then show "delete_customer cid s = (Inl (DataValidationError ''Bad ID format''), s)"
    by (simp add: delete_customer_def)
next
  assume "\<exists>ch\<in>set cid. \<not> is_digit ch \<and> \<not> is_space ch \<and> ch \<notin> {CHR ''_'', CHR ''+'', CHR ''-''}"
  then obtain ch where "ch \<in> set cid" "\<not> is_digit ch" "\<not> is_space ch"
    "ch \<noteq> CHR ''_''" "ch \<noteq> CHR ''+''" "ch \<noteq> CHR ''-''" by auto
  then have "py_int cid = None" by (rule py_int_non_numeric)
  then show "int_of_str cid = None" by (simp add: int_of_str_def)
next
  assume "max_str_digits < length (filter is_digit cid)"
  then show "int_of_str cid = None" by (simp add: int_of_str_def)
next
  assume "length (filter is_digit (str_int j)) \<le> max_str_digits"
  then show "int_of_str (str_int j) = Some j" by (simp add: int_of_str_def py_int_str_int)
next
  show "list_all is_ascii (str_int j)" by (rule str_int_ascii)
next
  assume h: "int_of_str cid = Some i \<and> Customer_find i s = Some c"
  then have id: "customer_id c = Some i" using Customer_find_Some by blast
  with h show del: "delete_customer cid s =
        (Inr \<lparr>status = 204, body = JObj [], resp_headers = []\<rparr>,
         s\<lparr>rows := filter (\<lambda>r. customer_id r \<noteq> Some i) (rows s)\<rparr>)"
    by (simp add: delete_customer_def Customer_delete_def http_defs)
  show gone: "Customer_find i (snd (delete_customer cid s)) = None"
    by (simp add: del Customer_find_def find_after_delete)
  with h show "delete_customer cid (snd (delete_customer cid s)) =
          (Inl (Abort 404 (''Customer with id '' @ [CHR 0x27] @ str_int i @ [CHR 0x27] @ '' was not found.'')),
           snd (delete_customer cid s))"
    by (simp add: delete_customer_def [of cid "snd (delete_customer cid s)"]
        http_defs not_found_message_def)
next
  assume "int_of_str cid = Some i \<and> Customer_find i s = None"
  then show "delete_customer cid s =
        (Inl (Abort 404 (''Customer with id '' @ [CHR 0x27] @ str_int i @ [CHR 0x27] @ '' was not found.'')), s)"
    by (simp add: delete_customer_def http_defs not_found_message_def)
qed

text \<open>
  On the store of Alice and Bob: the id \<^verbatim>\<open>abc\<close> is refused, id 2 is deleted and a
  second DELETE of it answers 404, id 7 answers 404.
\<close>

theorem delete_customer_204_or_404_witness:
  "list_all is_ascii ''abc'' \<and> int_of_str ''abc'' = None
   \<and> delete_customer ''abc'' example_db = (Inl (DataValidationError ''Bad ID format''), example_db)
   \<and> list_all is_ascii ''2'' \<and> int_of_str ''2'' = Some 2 \<and> Customer_find 2 example_db = Some example_bob
   \<and> delete_customer ''2'' example_db
       = (Inr \<lparr>status = 204, body = JObj [], resp_headers = []\<rparr>, \<lparr>rows = [example_alice], next_id = 3\<rparr>)
   \<and> delete_customer ''2'' \<lparr>rows = [example_alice], next_id = 3\<rparr>
       = (Inl (Abort 404 ''Customer with id '2' was not found.''), \<lparr>rows = [example_alice], next_id = 3\<rparr>)
   \<and> list_all is_ascii ''7'' \<and> int_of_str ''7'' = Some 7 \<and> Customer_find 7 example_db = None
   \<and> delete_customer ''7'' example_db
       = (Inl (Abort 404 ''Customer with id '7' was not found.''), example_db)"
proof -
  have aa: "list_all is_ascii ''abc''" and a2: "list_all is_ascii ''2''" and a7: "list_all is_ascii ''7''"
    by (simp_all add: is_ascii_def)
  have bad: "\<exists>ch\<in>set ''abc''. \<not> is_digit ch \<and> \<not> is_space ch \<and> ch \<notin> {CHR ''_'', CHR ''+'', CHR ''-''}"
    by (simp add: is_digit_def is_space_def)
  have "py_int ''2'' = Some 2" and "py_int ''7'' = Some 7" by code_simp+
  then have p2: "int_of_str ''2'' = Some 2" and p7: "int_of_str ''7'' = Some 7"
    by (simp_all add: int_of_str_def max_str_digits_def)
  have s2: "str_int 2 = ''2''" and s7: "str_int 7 = ''7''" by code_simp+
  have f2: "Customer_find 2 example_db = Some example_bob"
    by (simp add: Customer_find_def example_defs)
  have f7: "Customer_find 7 example_db = None"
    by (simp add: Customer_find_def example_defs)
  have none: "int_of_str ''abc'' = None"
    using delete_customer_204_or_404 [OF aa, of example_db] bad by blast
  have a: "delete_customer ''abc'' example_db = (Inl (DataValidationError ''Bad ID format''), example_db)"
    using delete_customer_204_or_404 [OF aa, of example_db] none by blast
  have rows: "example_db\<lparr>rows := filter (\<lambda>r. customer_id r \<noteq> Some 2) (rows example_db)\<rparr>
      = \<lparr>rows = [example_alice], next_id = 3\<rparr>"
    by (simp add: example_defs)
  note T = delete_customer_204_or_404 [OF a2, of example_db _ 2 example_bob]
  from T p2 f2 rows have b1: "delete_customer ''2'' example_db
       = (Inr \<lparr>status = 204, body = JObj [], resp_headers = []\<rparr>, \<lparr>rows = [example_alice], next_id = 3\<rparr>)"
    by simp
  from T p2 f2 have "delete_customer ''2'' (snd (delete_customer ''2'' example_db)) =
          (Inl (Abort 404 (''Customer with id '' @ [CHR 0x27] @ str_int 2 @ [CHR 0x27] @ '' was not found.'')),
           snd (delete_customer ''2'' example_db))"
    by blast
  then have b2: "delete_customer ''2'' \<lparr>rows = [example_alice], next_id = 3\<rparr>
       = (Inl (Abort 404 ''Customer with id '2' was not found.''), \<lparr>rows = [example_alice], next_id = 3\<rparr>)"
    by (simp add: b1 s2)
  have c: "delete_customer ''7'' example_db
       = (Inl (Abort 404 ''Customer with id '7' was not found.''), example_db)"
    using delete_customer_204_or_404 [OF a7, of example_db _ 7] p7 f7 s7 by simp
  from aa a2 a7 none a b1 b2 c p2 p7 f2 f7 show ?thesis by simp
qed

subsection \<open>Content type\<close>

text \<open>
  C6. \<^verbatim>\<open>check_content_type("application/json")\<close> aborts with 415 exactly when the
  Content-Type header is missing or is not \<^verbatim>\<open>application/json\<close>, and returns
  otherwise; POST /customers and PUT /customers/{id} answer 415 in exactly that case.
\<close>

theorem check_content_type_415_iff:
  "((\<exists>m. check_content_type ''application/json'' req = Inl (Abort 415 m))
      = (map_of (headers req) ''Content-Type'' \<noteq> Some ''application/json''))
   \<and> ((check_content_type ''application/json'' req = Inr ())
      = (map_of (headers req) ''Content-Type'' = Some ''application/json''))
   \<and> ((\<exists>m. fst (create_customers req s) = Inl (Abort 415 m))
      = (map_of (headers req) ''Content-Type'' \<noteq> Some ''application/json''))
   \<and> ((\<exists>m. fst (update_customers i req s) = Inl (Abort 415 m))
      = (map_of (headers req) ''Content-Type'' \<noteq> Some ''application/json''))"
proof (intro conjI)
  show "(\<exists>m. check_content_type ''application/json'' req = Inl (Abort 415 m))
      = (map_of (headers req) ''Content-Type'' \<noteq> Some ''application/json'')"
    by (simp add: check_content_type_cases)
  show "(check_content_type ''application/json'' req = Inr ())
      = (map_of (headers req) ''Content-Type'' = Some ''application/json'')"
    by (simp add: check_content_type_cases)
  show "(\<exists>m. fst (create_customers req s) = Inl (Abort 415 m))
      = (map_of (headers req) ''Content-Type'' \<noteq> Some ''application/json'')"
    by (auto simp: create_customers_def check_content_type_cases get_json_def
        Customer_create_def Let_def http_defs invalid_customer_def
        split: option.splits sum.splits dest!: deserialize_error)
  show "(\<exists>m. fst (update_customers i req s) = Inl (Abort 415 m))
      = (map_of (headers req) ''Content-Type'' \<noteq> Some ''application/json'')"
    by (auto simp: update_customers_def check_content_type_cases get_json_def
        Let_def http_defs invalid_customer_def
        split: option.splits sum.splits dest!: deserialize_error)
qed

subsection \<open>The id of a customer\<close>

text \<open>
  C7. No handler changes the id of a stored customer. After a PUT the rows of the
  store have, position by position, the ids they had before, and the entity a PUT
  returns has the id of the URL, whatever the body says; a POST only appends to the
  rows; a DELETE only removes rows; the reads leave the rows as they are.
\<close>

theorem customer_id_immutable:
  "map customer_id (rows (snd (update_customers i req s))) = map customer_id (rows s)
   \<and> (\<forall>r. fst (update_customers i req s) = Inr r \<longrightarrow>
         (\<exists>c. body r = Customer_serialize c \<and> customer_id c = Some i))
   \<and> (\<exists>new. rows (snd (create_customers req s)) = rows s @ new)
   \<and> (\<exists>P. rows (snd (delete_customer cid s)) = filter P (rows s))
   \<and> rows (snd (index req s)) = rows s
   \<and> rows (snd (list_customers req s)) = rows s
   \<and> rows (snd (get_customers i s)) = rows s"
proof (intro conjI allI impI)
  show "map customer_id (rows (snd (update_customers i req s))) = map customer_id (rows s)"
    using update_customers_snd [of i req s] by (auto simp: ids_Customer_update)
next
  fix r
  assume "fst (update_customers i req s) = Inr r"
  then obtain c data c' where "Customer_find i s = Some c" "Customer_deserialize c data = Inr c'"
    "body r = Customer_serialize c'"
    by (auto simp: update_customers_def split: sum.splits option.splits)
  moreover from this have "customer_id c' = Some i"
    using deserialize_keeps_id Customer_find_Some by metis
  ultimately show "\<exists>c. body r = Customer_serialize c \<and> customer_id c = Some i" by blast
next
  show "\<exists>new. rows (snd (create_customers req s)) = rows s @ new"
    by (auto simp: create_customers_def Customer_create_def Let_def split: sum.splits)
next
  show "\<exists>P. rows (snd (delete_customer cid s)) = filter P (rows s)"
  proof (cases "\<exists>i c. int_of_str cid = Some i \<and> Customer_find i s = Some c")
    case True
    then show ?thesis by (auto simp: delete_customer_def Customer_delete_def)
  next
    case False
    then have "snd (delete_customer cid s) = s"
      by (auto simp: delete_customer_def split: option.splits)
    then have "rows (snd (delete_customer cid s)) = filter (\<lambda>_. True) (rows s)" by simp
    then show ?thesis by blast
  qed
qed (simp_all add: index_def list_customers_def get_customers_def Let_def split: option.splits)

text \<open>A PUT to id 2 whose body carries \<^verbatim>\<open>"id": 99\<close>: the entity keeps id 2.\<close>

theorem customer_id_immutable_witness:
  "fst (update_customers 2
          (example_request [] (Some (JObj [(''id'', JNum 99), (''name'', JStr ''Rob''), (''email'', JStr ''rob@example.com''),
                                           (''phone_number'', JStr ''555-0199''), (''address'', JStr ''9 Low Rd'')])))
          example_db)
     = Inr \<lparr>status = 200,
            body = Customer_serialize \<lparr>customer_id = Some 2, name = ''Rob'', email = ''rob@example.com'',
                                       phone_number = ''555-0199'', address = ''9 Low Rd''\<rparr>,
            resp_headers = []\<rparr>
   \<and> map customer_id (rows (snd (update_customers 2
          (example_request [] (Some (JObj [(''id'', JNum 99), (''name'', JStr ''Rob''), (''email'', JStr ''rob@example.com''),
                                           (''phone_number'', JStr ''555-0199''), (''address'', JStr ''9 Low Rd'')])))
          example_db)))
     = [Some 1, Some 2]"
proof -
  let ?req = "example_request [] (Some (JObj [(''id'', JNum 99), (''name'', JStr ''Rob''), (''email'', JStr ''rob@example.com''),
                                           (''phone_number'', JStr ''555-0199''), (''address'', JStr ''9 Low Rd'')]))"
  have u: "fst (update_customers 2 ?req example_db)
     = Inr \<lparr>status = 200,
            body = Customer_serialize \<lparr>customer_id = Some 2, name = ''Rob'', email = ''rob@example.com'',
                                       phone_number = ''555-0199'', address = ''9 Low Rd''\<rparr>,
            resp_headers = []\<rparr>"
    by (simp add: update_customers_def check_content_type_cases get_json_def Customer_deserialize_def
        str_field_def Customer_find_def http_defs example_defs)
  have "map customer_id (rows example_db) = [Some 1, Some 2]" by (simp add: example_defs)
  with customer_id_immutable [of 2 ?req example_db] u show ?thesis by simp
qed

subsection \<open>Reads and failed writes leave the store as it is\<close>

text \<open>
  C8. The reads do not change the store: after GET / (\<^verbatim>\<open>index\<close>), GET /customers
  (\<^verbatim>\<open>list_customers\<close>, whatever the filters) and GET /customers/{id}
  (\<^verbatim>\<open>get_customers\<close>) the store is the store before the request.
\<close>

theorem reads_never_mutate:
  "snd (index req s) = s \<and> snd (list_customers req s) = s \<and> snd (get_customers i s) = s"
  by (simp add: index_def list_customers_def get_customers_def Let_def split: option.splits)

text \<open>
  C10. When the body of a POST or PUT fails \<^verbatim>\<open>deserialize\<close>, the handler ends in an
  exception and the store is the store before the request. With the JSON content type
  (and, for PUT, an existing customer) the exception is the validation error of
  \<^verbatim>\<open>deserialize\<close>, raised before \<^verbatim>\<open>create\<close> or \<^verbatim>\<open>update\<close> is reached, and the
  customer a PUT targets is still found with the fields it had.
\<close>

theorem validation_failure_atomic:
  assumes "json_body req = Some data" and "Customer_deserialize Customer data = Inl e"
  shows "snd (create_customers req s) = s
       \<and> snd (update_customers i req s) = s
       \<and> (\<exists>e'. fst (create_customers req s) = Inl e')
       \<and> (\<exists>e'. fst (update_customers i req s) = Inl e')
       \<and> (map_of (headers req) ''Content-Type'' = Some ''application/json'' \<longrightarrow>
            create_customers req s = (Inl e, s))
       \<and> (map_of (headers req) ''Content-Type'' = Some ''application/json'' \<and> Customer_find i s = Some c \<longrightarrow>
            update_customers i req s = (Inl e, s) \<and> Customer_find i (snd (update_customers i req s)) = Some c)"
proof -
  have des: "Customer_deserialize c' data = Inl e" for c'
    using assms(2) by (rule deserialize_error_indep)
  have cr: "create_customers req s =
      (case check_content_type ''application/json'' req of Inl e' \<Rightarrow> (Inl e', s) | Inr _ \<Rightarrow> (Inl e, s))"
    using assms(1) des by (simp add: create_customers_def get_json_def split: sum.splits)
  have up: "update_customers i req s =
      (case check_content_type ''application/json'' req of
         Inl e' \<Rightarrow> (Inl e', s)
       | Inr _ \<Rightarrow> (case Customer_find i s of
                     None \<Rightarrow> (Inl (Abort HTTP_404_NOT_FOUND (not_found_message i)), s)
                   | Some _ \<Rightarrow> (Inl e, s)))"
    using assms(1) des by (simp add: update_customers_def get_json_def split: sum.splits option.splits)
  show ?thesis
    by (simp add: cr up check_content_type_cases split: sum.splits option.splits)
qed

text \<open>The body \<^verbatim>\<open>{"name": "Robert"}\<close> posted, and put to Bob's id.\<close>

theorem validation_failure_atomic_witness:
  "Customer_deserialize Customer (JObj [(''name'', JStr ''Robert'')]) = Inl invalid_customer
   \<and> create_customers (example_request [] (Some (JObj [(''name'', JStr ''Robert'')]))) example_db
       = (Inl invalid_customer, example_db)
   \<and> update_customers 2 (example_request [] (Some (JObj [(''name'', JStr ''Robert'')]))) example_db
       = (Inl invalid_customer, example_db)
   \<and> Customer_find 2 example_db = Some example_bob"
proof -
  let ?req = "example_request [] (Some (JObj [(''name'', JStr ''Robert'')]))"
  have b: "json_body ?req = Some (JObj [(''name'', JStr ''Robert'')])"
    by (simp add: example_request_def)
  have d: "Customer_deserialize Customer (JObj [(''name'', JStr ''Robert'')]) = Inl invalid_customer"
    by (simp add: Customer_deserialize_def str_field_def)
  have ct: "map_of (headers ?req) ''Content-Type'' = Some ''application/json''"
    by (simp add: example_request_def)
  have f2: "Customer_find 2 example_db = Some example_bob"
    by (simp add: Customer_find_def example_defs)
  from validation_failure_atomic [OF b d, of example_db 2 example_bob] ct f2 d
  show ?thesis by simp
qed

end
